theory Spec2Isabelle
  imports Complex_Main "HOL-Library.Word"
begin

section \<open>Data model of the map viewer (class MRTMapInteraction, src/js/app.js)\<close>

text \<open>
  JavaScript Numbers are idealised as exact reals: \<open>+\<close>, \<open>-\<close>, \<open>*\<close> and \<open>/\<close> do not round,
  and NaN and the infinities are left out. A JavaScript string is a sequence of 16-bit
  code units. Class tokens and event names are the ASCII literals of the source.
\<close>

type_synonym code_unit = "16 word"
type_synonym js_string = "code_unit list"

definition js_str :: "string \<Rightarrow> js_string" where
  "js_str s = map of_char s"

datatype js_error = TypeError | SecurityError

text \<open>
  How a method call ends: it returns, or it throws; either way the object is left in the
  state the call had reached (JavaScript does not undo the assignments made before a throw).
\<close>

datatype 'a completion = Normal 'a | Throw js_error 'a

fun state_of :: "'a completion \<Rightarrow> 'a" where
  "state_of (Normal s) = s"
| "state_of (Throw e s) = s"

fun throws :: "'a completion \<Rightarrow> bool" where
  "throws (Normal s) = False"
| "throws (Throw e s) = True"

text \<open>A mouse event or a touch point: the two coordinates the handlers read.\<close>

record pointer_event =
  clientX :: real
  clientY :: real

text \<open>A node of the embedded SVG document, with the attributes and styles the viewer touches.
  \<open>attr_r\<close> is the number \<open>parseFloat(getAttribute('r'))\<close> reads; \<open>None\<close> stands for an
  attribute that is absent or does not parse (NaN).\<close>

record svg_node =
  tagName :: string
  attr_id :: "js_string option"
  attr_title :: "js_string option"
  node_textContent :: js_string
  attr_r :: "real option"
  style_fill :: string
  style_cursor :: string
  style_transition :: string
  node_listeners :: "string list"

text \<open>What reading \<open>mapObject.contentDocument\<close> gives: the getter throws, returns null,
  or returns the document (its nodes in document order).\<close>

datatype content_access = AccessError | NoDocument | Document "svg_node list"

record wrapper_el =
  wrapper_classList :: "string set"
  rect_left :: real
  rect_top :: real
  wrapper_listeners :: "string list"

text \<open>\<open>style_transform\<close> holds the three numbers of the string
  \<open>translate(Xpx, Ypx) scale(S)\<close>; \<open>None\<close> is an element with no inline transform yet.\<close>

record object_el =
  style_transform :: "(real \<times> real \<times> real) option"
  contentDocument :: content_access
  object_listeners :: "string list"

record tooltip_el =
  tooltip_textContent :: js_string
  tooltip_classList :: "string set"
  style_left :: "real option"
  style_top :: "real option"

record button_el =
  button_listeners :: "string list"

text \<open>The page as \<open>document.getElementById\<close> sees it: each of the seven ids is absent
  (null) or an element.\<close>

record page =
  el_map_wrapper :: "wrapper_el option"
  el_mrt_map_svg :: "object_el option"
  el_station_tooltip :: "tooltip_el option"
  el_zoom_in :: "button_el option"
  el_zoom_out :: "button_el option"
  el_reset_zoom :: "button_el option"
  el_fullscreen :: "button_el option"

datatype console_msg =
    MapInitialized
  | StationsInitialized nat
  | SetupError
  | StationClicked js_string

text \<open>The fields of the object, the elements it references, and the two outputs to the
  host (\<open>console\<close> and \<open>alert\<close>) in the order they were produced.\<close>

record viewer =
  mapWrapper :: "wrapper_el option"
  mapObject :: "object_el option"
  tooltip :: "tooltip_el option"
  zoomInBtn :: "button_el option"
  zoomOutBtn :: "button_el option"
  resetBtn :: "button_el option"
  fullscreenBtn :: "button_el option"
  scale :: real
  minScale :: real
  maxScale :: real
  isPanning :: bool
  startX :: real
  startY :: real
  translateX :: real
  translateY :: real
  console :: "console_msg list"
  alerts :: "js_string list"

section \<open>Pan and zoom\<close>

definition updateTransform :: "viewer \<Rightarrow> viewer" where
  "updateTransform v =
     (case mapObject v of
        None \<Rightarrow> v
      | Some ob \<Rightarrow>
          v\<lparr>mapObject := Some (ob\<lparr>style_transform :=
               Some (translateX v, translateY v, scale v)\<rparr>)\<rparr>)"

definition zoomIn :: "viewer \<Rightarrow> viewer" where
  "zoomIn v =
     (if scale v < maxScale v
      then updateTransform (v\<lparr>scale := min (scale v + 0.2) (maxScale v)\<rparr>)
      else v)"

definition zoomOut :: "viewer \<Rightarrow> viewer" where
  "zoomOut v =
     (if scale v > minScale v
      then updateTransform (v\<lparr>scale := max (scale v - 0.2) (minScale v)\<rparr>)
      else v)"

definition resetZoom :: "viewer \<Rightarrow> viewer" where
  "resetZoom v = updateTransform (v\<lparr>scale := 1, translateX := 0, translateY := 0\<rparr>)"

text \<open>\<open>startPan\<close> and \<open>endPan\<close> assign the fields first and then reach through
  \<open>this.mapWrapper.classList\<close>, which is a TypeError when the wrapper is null.\<close>

definition startPan :: "pointer_event \<Rightarrow> viewer \<Rightarrow> viewer completion" where
  "startPan event v =
     (let v1 = v\<lparr>isPanning := True,
                 startX := clientX event - translateX v,
                 startY := clientY event - translateY v\<rparr>
      in case mapWrapper v1 of
           None \<Rightarrow> Throw TypeError v1
         | Some w \<Rightarrow>
             Normal (v1\<lparr>mapWrapper :=
               Some (w\<lparr>wrapper_classList := insert ''grabbing'' (wrapper_classList w)\<rparr>)\<rparr>))"

definition pan :: "pointer_event \<Rightarrow> viewer \<Rightarrow> viewer" where
  "pan event v =
     (if \<not> isPanning v then v
      else updateTransform (v\<lparr>translateX := clientX event - startX v,
                              translateY := clientY event - startY v\<rparr>))"

definition endPan :: "viewer \<Rightarrow> viewer completion" where
  "endPan v =
     (let v1 = v\<lparr>isPanning := False\<rparr>
      in case mapWrapper v1 of
           None \<Rightarrow> Throw TypeError v1
         | Some w \<Rightarrow>
             Normal (v1\<lparr>mapWrapper :=
               Some (w\<lparr>wrapper_classList := wrapper_classList w - {''grabbing''}\<rparr>)\<rparr>))"

section \<open>Construction\<close>

text \<open>\<open>addEventListener\<close> appends the event name to the element's listeners.\<close>

definition add_wrapper_listeners :: "string list \<Rightarrow> wrapper_el \<Rightarrow> wrapper_el" where
  "add_wrapper_listeners ns w = w\<lparr>wrapper_listeners := wrapper_listeners w @ ns\<rparr>"

definition add_button_listener :: "string \<Rightarrow> button_el option \<Rightarrow> button_el option" where
  "add_button_listener n b =
     (case b of
        None \<Rightarrow> None
      | Some e \<Rightarrow> Some (e\<lparr>button_listeners := button_listeners e @ [n]\<rparr>))"

definition init :: "viewer \<Rightarrow> viewer" where
  "init v =
     (case (mapWrapper v, mapObject v) of
        (Some w, Some ob) \<Rightarrow>
          v\<lparr>console := console v @ [MapInitialized],
            mapObject := Some (ob\<lparr>object_listeners := object_listeners ob @ [''load'']\<rparr>),
            zoomInBtn := add_button_listener ''click'' (zoomInBtn v),
            zoomOutBtn := add_button_listener ''click'' (zoomOutBtn v),
            resetBtn := add_button_listener ''click'' (resetBtn v),
            fullscreenBtn := add_button_listener ''click'' (fullscreenBtn v),
            mapWrapper := Some (add_wrapper_listeners
              [''mousedown'', ''mousemove'', ''mouseup'', ''mouseleave'',
               ''touchstart'', ''touchmove'', ''touchend'', ''wheel''] w)\<rparr>
      | _ \<Rightarrow> v)"

definition new_MRTMapInteraction :: "page \<Rightarrow> viewer" where
  "new_MRTMapInteraction doc =
     init \<lparr>mapWrapper = el_map_wrapper doc,
           mapObject = el_mrt_map_svg doc,
           tooltip = el_station_tooltip doc,
           zoomInBtn = el_zoom_in doc,
           zoomOutBtn = el_zoom_out doc,
           resetBtn = el_reset_zoom doc,
           fullscreenBtn = el_fullscreen doc,
           scale = 1,
           minScale = 0.5,
           maxScale = 3,
           isPanning = False,
           startX = 0,
           startY = 0,
           translateX = 0,
           translateY = 0,
           console = [],
           alerts = []\<rparr>"

text \<open>The public operations as calls, and a run of calls one after the other. A call that
  throws ends that call only: the next event handler runs on the state it left.\<close>

datatype call = ZoomIn | ZoomOut | ResetZoom | StartPan pointer_event | Pan pointer_event | EndPan

fun do_call :: "call \<Rightarrow> viewer \<Rightarrow> viewer completion" where
  "do_call ZoomIn v = Normal (zoomIn v)"
| "do_call ZoomOut v = Normal (zoomOut v)"
| "do_call ResetZoom v = Normal (resetZoom v)"
| "do_call (StartPan e) v = startPan e v"
| "do_call (Pan e) v = Normal (pan e v)"
| "do_call EndPan v = endPan v"

fun run_calls :: "call list \<Rightarrow> viewer \<Rightarrow> viewer" where
  "run_calls [] v = v"
| "run_calls (c # cs) v = run_calls cs (state_of (do_call c v))"

section \<open>Strings: the built-ins the label code calls\<close>

text \<open>\<open>String.prototype.trim\<close> strips WhiteSpace and LineTerminator code units from both ends.\<close>

definition is_whitespace :: "code_unit \<Rightarrow> bool" where
  "is_whitespace c =
     (c \<in> {0x09, 0x0A, 0x0B, 0x0C, 0x0D, 0x20, 0xA0, 0x1680, 0x2028, 0x2029,
            0x202F, 0x205F, 0x3000, 0xFEFF}
      \<or> (0x2000 \<le> c \<and> c \<le> 0x200A))"

definition js_trim :: "js_string \<Rightarrow> js_string" where
  "js_trim s = rev (dropWhile is_whitespace (rev (dropWhile is_whitespace s)))"

text \<open>
  The \<open>i\<close> flag of a regular expression without the \<open>u\<close> flag compares canonicalised code
  units. Canonicalisation never maps a code unit from 128 up to one below 128, so against
  the ASCII letters of a pattern only the folding of \<open>a\<close>..\<open>z\<close> onto \<open>A\<close>..\<open>Z\<close> decides.
\<close>

definition ascii_upper :: "code_unit \<Rightarrow> code_unit" where
  "ascii_upper c = (if 0x61 \<le> c \<and> c \<le> 0x7A then c - 0x20 else c)"

text \<open>Does the literal pattern match at the start of the string? (\<open>ic\<close> is the \<open>i\<close> flag.)\<close>

fun matches_at :: "bool \<Rightarrow> js_string \<Rightarrow> js_string \<Rightarrow> bool" where
  "matches_at ic [] s = True"
| "matches_at ic (p # ps) [] = False"
| "matches_at ic (p # ps) (c # cs) =
     ((if ic then ascii_upper p = ascii_upper c else p = c) \<and> matches_at ic ps cs)"

text \<open>
  \<open>s.replace(/pat/g, rep)\<close> for a non-empty literal pattern and a replacement without
  \<open>$\<close>: scan from the left, at a match emit \<open>rep\<close> and go on behind the match, otherwise
  keep the code unit and go on with the next one.
\<close>

function replace_all :: "bool \<Rightarrow> js_string \<Rightarrow> js_string \<Rightarrow> js_string \<Rightarrow> js_string" where
  "replace_all ic pat rep [] = []"
| "replace_all ic pat rep (c # cs) =
     (if matches_at ic pat (c # cs)
      then rep @ replace_all ic pat rep (drop (length pat - 1) cs)
      else c # replace_all ic pat rep cs)"
  by pat_completeness auto
termination
  by (relation "measure (\<lambda>(ic, pat, rep, s). length s)") auto

text \<open>\<open>a || b\<close> where \<open>a\<close> is null or a string and \<open>b\<close> a string: null and the empty string
  are falsy.\<close>

definition or_else :: "js_string option \<Rightarrow> js_string \<Rightarrow> js_string" where
  "or_else a b = (case a of None \<Rightarrow> b | Some s \<Rightarrow> if s = [] then b else s)"

section \<open>Tooltip and station handlers\<close>

definition updateTooltipPosition :: "pointer_event \<Rightarrow> viewer \<Rightarrow> viewer completion" where
  "updateTooltipPosition event v =
     (case tooltip v of
        None \<Rightarrow> Normal v
      | Some t \<Rightarrow>
          if ''visible'' \<notin> tooltip_classList t then Normal v
          else (case mapWrapper v of
                  None \<Rightarrow> Throw TypeError v
                | Some w \<Rightarrow>
                    let x = clientX event - rect_left w;
                        y = clientY event - rect_top w - 10
                    in Normal (v\<lparr>tooltip := Some (t\<lparr>style_left := Some x,
                                                      style_top := Some y\<rparr>)\<rparr>)))"

definition showStationTooltip :: "pointer_event \<Rightarrow> svg_node \<Rightarrow> viewer \<Rightarrow> viewer completion" where
  "showStationTooltip event station v =
     (case tooltip v of
        None \<Rightarrow> Normal v
      | Some t \<Rightarrow>
          let stationName = or_else (attr_id station)
                             (or_else (attr_title station)
                               (or_else (Some (node_textContent station)) (js_str ''Station'')));
              stationName = js_trim
                             (replace_all True (js_str ''station'') []
                               (replace_all False (js_str ''_'') (js_str '' '') stationName))
          in updateTooltipPosition event
               (v\<lparr>tooltip := Some (t\<lparr>tooltip_textContent := stationName,
                                      tooltip_classList := insert ''visible'' (tooltip_classList t)\<rparr>)\<rparr>))"

definition hideTooltip :: "viewer \<Rightarrow> viewer" where
  "hideTooltip v =
     (case tooltip v of
        None \<Rightarrow> v
      | Some t \<Rightarrow> v\<lparr>tooltip := Some (t\<lparr>tooltip_classList := tooltip_classList t - {''visible''}\<rparr>)\<rparr>)"

text \<open>The text handed to \<open>alert\<close>: the template of the source around the station name.\<close>

definition alert_text :: "js_string \<Rightarrow> js_string" where
  "alert_text stationName =
     js_str ''Station: '' @ stationName @ [0x0A, 0x0A]
     @ js_str ''This feature can be expanded to show:'' @ [0x0A]
     @ js_str ''- Connected lines'' @ [0x0A]
     @ js_str ''- Nearby attractions'' @ [0x0A]
     @ js_str ''- Transfer information'' @ [0x0A]
     @ js_str ''- Exit information''"

definition handleStationClick :: "svg_node \<Rightarrow> viewer \<Rightarrow> viewer" where
  "handleStationClick station v =
     (let stationName = or_else (attr_id station)
                         (or_else (attr_title station)
                           (or_else (Some (node_textContent station)) (js_str ''Unknown Station'')))
      in v\<lparr>console := console v @ [StationClicked stationName],
           alerts := alerts v @ [alert_text stationName]\<rparr>)"

text \<open>The listeners \<open>setupSVGInteraction\<close> attaches to a station. They run on the viewer and
  on the node they were attached to; a throw inside \<open>showStationTooltip\<close> ends the
  \<open>mouseenter\<close> handler before it touches the node.\<close>

definition station_mouseenter ::
  "pointer_event \<Rightarrow> svg_node \<Rightarrow> viewer \<Rightarrow> (viewer \<times> svg_node) completion" where
  "station_mouseenter e station v =
     (case showStationTooltip e station v of
        Throw err v1 \<Rightarrow> Throw err (v1, station)
      | Normal v1 \<Rightarrow>
          Normal (v1,
            if tagName station = ''circle''
            then station\<lparr>attr_r := map_option (\<lambda>r. r * 1.5) (attr_r station),
                         style_fill := ''#B40000''\<rparr>
            else station))"

definition station_mouseleave ::
  "pointer_event \<Rightarrow> svg_node \<Rightarrow> viewer \<Rightarrow> (viewer \<times> svg_node) completion" where
  "station_mouseleave e station v =
     Normal (hideTooltip v,
       if tagName station = ''circle''
       then station\<lparr>attr_r := map_option (\<lambda>r. r / 1.5) (attr_r station),
                    style_fill := []\<rparr>
       else station)"

definition station_mousemove :: "pointer_event \<Rightarrow> viewer \<Rightarrow> viewer completion" where
  "station_mousemove e v = updateTooltipPosition e v"

definition station_click :: "svg_node \<Rightarrow> viewer \<Rightarrow> viewer completion" where
  "station_click station v = Normal (handleStationClick station v)"

section \<open>Station setup\<close>

fun contains_literal :: "js_string \<Rightarrow> js_string \<Rightarrow> bool" where
  "contains_literal pat [] = matches_at False pat []"
| "contains_literal pat (c # cs) = (matches_at False pat (c # cs) \<or> contains_literal pat cs)"

text \<open>The selector \<open>circle, text, g[id*="station"], g[id*="Station"]\<close>.\<close>

definition is_station_like :: "svg_node \<Rightarrow> bool" where
  "is_station_like n =
     (tagName n = ''circle'' \<or> tagName n = ''text''
      \<or> (tagName n = ''g''
          \<and> (case attr_id n of
                None \<Rightarrow> False
              | Some i \<Rightarrow> contains_literal (js_str ''station'') i
                          \<or> contains_literal (js_str ''Station'') i)))"

definition make_interactive :: "svg_node \<Rightarrow> svg_node" where
  "make_interactive station =
     station\<lparr>style_cursor := ''pointer'',
             style_transition := ''all 0.2s ease'',
             node_listeners := node_listeners station
               @ [''mouseenter'', ''mouseleave'', ''mousemove'', ''click'']\<rparr>"

text \<open>The body of the \<open>try\<close> block, then the block with its \<open>catch\<close>.\<close>

definition setup_body :: "viewer \<Rightarrow> viewer completion" where
  "setup_body v =
     (case mapObject v of
        None \<Rightarrow> Throw TypeError v
      | Some ob \<Rightarrow>
          (case contentDocument ob of
             AccessError \<Rightarrow> Throw SecurityError v
           | NoDocument \<Rightarrow> Normal v
           | Document nodes \<Rightarrow>
               Normal (v\<lparr>mapObject := Some (ob\<lparr>contentDocument := Document
                            (map (\<lambda>n. if is_station_like n then make_interactive n else n) nodes)\<rparr>),
                         console := console v
                            @ [StationsInitialized (length (filter is_station_like nodes))]\<rparr>)))"

definition setupSVGInteraction :: "viewer \<Rightarrow> viewer completion" where
  "setupSVGInteraction v =
     (case setup_body v of
        Normal v1 \<Rightarrow> Normal v1
      | Throw error v1 \<Rightarrow> Normal (v1\<lparr>console := console v1 @ [SetupError]\<rparr>))"

section \<open>What is observed, and the properties in the specification's words\<close>

definition scale_in_bounds :: "viewer \<Rightarrow> bool" where
  "scale_in_bounds v = (minScale v \<le> scale v \<and> scale v \<le> maxScale v)"

text \<open>The label the tooltip shows after a hover, and the text of the notification a click
  raises.\<close>

definition shown_label :: "pointer_event \<Rightarrow> svg_node \<Rightarrow> viewer \<Rightarrow> js_string option" where
  "shown_label e station v =
     map_option tooltip_textContent (tooltip (state_of (showStationTooltip e station v)))"

definition notification :: "svg_node \<Rightarrow> viewer \<Rightarrow> js_string" where
  "notification station v = last (alerts (handleStationClick station v))"

text \<open>
  The label derivation as the specification words it. The source of the label is the
  identifier, falling back to the title, then to the text content. An occurrence of the word
  "station" at position \<open>i\<close> is seven code units that spell it in letters of either case;
  removing every occurrence deletes each position that lies inside one.
\<close>

fun first_nonempty :: "js_string option list \<Rightarrow> js_string" where
  "first_nonempty [] = []"
| "first_nonempty (None # xs) = first_nonempty xs"
| "first_nonempty (Some s # xs) = (if s = [] then first_nonempty xs else s)"

definition spec_label_source :: "svg_node \<Rightarrow> js_string" where
  "spec_label_source n =
     first_nonempty [attr_id n, attr_title n, Some (node_textContent n)]"

definition spec_underscores_to_spaces :: "js_string \<Rightarrow> js_string" where
  "spec_underscores_to_spaces s = map (\<lambda>c. if c = 0x5F then 0x20 else c) s"

definition same_letter :: "code_unit \<Rightarrow> code_unit \<Rightarrow> bool" where
  "same_letter p c = (c = p \<or> c = p - 0x20)"

definition occurs_at :: "js_string \<Rightarrow> nat \<Rightarrow> bool" where
  "occurs_at s i =
     (i + 7 \<le> length s \<and> list_all2 same_letter (js_str ''station'') (take 7 (drop i s)))"

definition covered :: "js_string \<Rightarrow> nat \<Rightarrow> bool" where
  "covered s j = (\<exists>i \<in> {j - 6 .. j}. occurs_at s i)"

definition spec_remove_station :: "js_string \<Rightarrow> js_string" where
  "spec_remove_station s =
     map fst (filter (\<lambda>(c, j). \<not> covered s j) (zip s [0 ..< length s]))"

definition spec_label :: "js_string \<Rightarrow> js_string" where
  "spec_label raw = js_trim (spec_remove_station (spec_underscores_to_spaces raw))"

section \<open>Sample inputs\<close>

definition sample_page :: page where
  "sample_page =
     \<lparr>el_map_wrapper = Some \<lparr>wrapper_classList = {}, rect_left = 8, rect_top = 120,
                              wrapper_listeners = []\<rparr>,
      el_mrt_map_svg = Some \<lparr>style_transform = None, contentDocument = NoDocument,
                              object_listeners = []\<rparr>,
      el_station_tooltip = Some \<lparr>tooltip_textContent = [], tooltip_classList = {},
                                  style_left = None, style_top = None\<rparr>,
      el_zoom_in = Some \<lparr>button_listeners = []\<rparr>,
      el_zoom_out = Some \<lparr>button_listeners = []\<rparr>,
      el_reset_zoom = Some \<lparr>button_listeners = []\<rparr>,
      el_fullscreen = Some \<lparr>button_listeners = []\<rparr>\<rparr>"

definition sample_station :: svg_node where
  "sample_station =
     \<lparr>tagName = ''circle'',
      attr_id = Some (js_str ''Raffles_Place_Station''),
      attr_title = None,
      node_textContent = [],
      attr_r = Some 5,
      style_fill = [],
      style_cursor = ''pointer'',
      style_transition = ''all 0.2s ease'',
      node_listeners = [''mouseenter'', ''mouseleave'', ''mousemove'', ''click'']\<rparr>"

section \<open>Pan and zoom: properties\<close>

lemma updateTransform_fields [simp]:
  "scale (updateTransform v) = scale v"
  "minScale (updateTransform v) = minScale v"
  "maxScale (updateTransform v) = maxScale v"
  "translateX (updateTransform v) = translateX v"
  "translateY (updateTransform v) = translateY v"
  "isPanning (updateTransform v) = isPanning v"
  "startX (updateTransform v) = startX v"
  "startY (updateTransform v) = startY v"
  "mapWrapper (updateTransform v) = mapWrapper v"
  by (simp_all add: updateTransform_def split: option.splits)

lemma init_fields [simp]:
  "scale (init v) = scale v"
  "minScale (init v) = minScale v"
  "maxScale (init v) = maxScale v"
  "translateX (init v) = translateX v"
  "translateY (init v) = translateY v"
  "isPanning (init v) = isPanning v"
  by (simp_all add: init_def split: option.splits)

lemma new_fields [simp]:
  "scale (new_MRTMapInteraction doc) = 1"
  "minScale (new_MRTMapInteraction doc) = 0.5"
  "maxScale (new_MRTMapInteraction doc) = 3"
  "translateX (new_MRTMapInteraction doc) = 0"
  "translateY (new_MRTMapInteraction doc) = 0"
  "isPanning (new_MRTMapInteraction doc) = False"
  by (simp_all add: new_MRTMapInteraction_def)

lemma sample_viewer_elements [simp]:
  "mapWrapper (new_MRTMapInteraction sample_page) \<noteq> None"
  "mapObject (new_MRTMapInteraction sample_page) \<noteq> None"
  "tooltip (new_MRTMapInteraction sample_page) \<noteq> None"
  by (simp_all add: new_MRTMapInteraction_def init_def sample_page_def)

text \<open>The invariant that carries through a run: the two bounds stay at their defaults and
  the scale stays between them.\<close>

lemma do_call_keeps_bounds:
  assumes "minScale v = 0.5" and "maxScale v = 3" and "scale_in_bounds v"
  shows "minScale (state_of (do_call c v)) = 0.5
       \<and> maxScale (state_of (do_call c v)) = 3
       \<and> scale_in_bounds (state_of (do_call c v))"
proof (cases c)
  case ZoomIn
  with assms show ?thesis by (simp add: scale_in_bounds_def zoomIn_def)
next
  case ZoomOut
  with assms show ?thesis by (simp add: scale_in_bounds_def zoomOut_def)
next
  case ResetZoom
  with assms show ?thesis by (simp add: scale_in_bounds_def resetZoom_def)
next
  case (StartPan e)
  with assms show ?thesis
    by (simp add: scale_in_bounds_def startPan_def Let_def split: option.splits)
next
  case (Pan e)
  with assms show ?thesis by (simp add: scale_in_bounds_def pan_def)
next
  case EndPan
  with assms show ?thesis
    by (simp add: scale_in_bounds_def endPan_def Let_def split: option.splits)
qed

lemma run_calls_keeps_bounds:
  "minScale v = 0.5 \<Longrightarrow> maxScale v = 3 \<Longrightarrow> scale_in_bounds v \<Longrightarrow>
   minScale (run_calls cs v) = 0.5 \<and> maxScale (run_calls cs v) = 3
   \<and> scale_in_bounds (run_calls cs v)"
proof (induction cs arbitrary: v)
  case Nil
  then show ?case by simp
next
  case (Cons c cs)
  from do_call_keeps_bounds [OF Cons.prems, of c] Cons.IH [of "state_of (do_call c v)"]
  show ?case by simp
qed

text \<open>
  C1. Start from the viewer as the constructor leaves it (scale 1, translation 0, bounds 0.5
  and 3), on any page. After every call of any finite sequence of \<open>zoomIn\<close>, \<open>zoomOut\<close>,
  \<open>resetZoom\<close>, \<open>startPan\<close>, \<open>pan\<close> and \<open>endPan\<close> (that is, after each prefix
  \<open>take n cs\<close> of the sequence), \<open>minScale \<le> scale \<le> maxScale\<close> holds, with the bounds still
  0.5 and 3.
\<close>

theorem scale_bounds_invariant:
  "scale_in_bounds (run_calls (take n cs) (new_MRTMapInteraction doc))
   \<and> minScale (run_calls (take n cs) (new_MRTMapInteraction doc)) = 0.5
   \<and> maxScale (run_calls (take n cs) (new_MRTMapInteraction doc)) = 3"
proof -
  have "scale_in_bounds (new_MRTMapInteraction doc)"
    by (simp add: scale_in_bounds_def)
  with run_calls_keeps_bounds [of "new_MRTMapInteraction doc" "take n cs"]
  show ?thesis by simp
qed

theorem scale_bounds_invariant_witness:
  "scale (run_calls [ZoomIn, ZoomIn, ZoomIn, ZoomIn, ZoomIn, ZoomIn, ZoomIn, ZoomIn, ZoomIn,
                     ZoomIn, ZoomIn, ZoomIn]
            (new_MRTMapInteraction sample_page)) \<le> 3
   \<and> 0.5 \<le> scale (run_calls [ZoomOut, ZoomOut, ZoomOut, EndPan, ZoomOut]
                     (new_MRTMapInteraction sample_page))"
  using scale_bounds_invariant [of 12 "[ZoomIn, ZoomIn, ZoomIn, ZoomIn, ZoomIn, ZoomIn, ZoomIn,
          ZoomIn, ZoomIn, ZoomIn, ZoomIn, ZoomIn]" sample_page]
        scale_bounds_invariant [of 5 "[ZoomOut, ZoomOut, ZoomOut, EndPan, ZoomOut]" sample_page]
  by (simp add: scale_in_bounds_def)

text \<open>
  C2. In every state that satisfies the scale invariant, \<open>zoomIn()\<close> sets the scale to
  \<open>min (scale + 0.2) maxScale\<close> and \<open>zoomOut()\<close> sets it to \<open>max (scale - 0.2) minScale\<close>;
  at \<open>maxScale\<close> a \<open>zoomIn()\<close> changes nothing at all (so three of them in a row change
  nothing), at \<open>minScale\<close> a \<open>zoomOut()\<close> changes nothing; neither changes \<open>translateX\<close> or
  \<open>translateY\<close>.
\<close>

theorem zoom_step_clamped:
  assumes "minScale v \<le> scale v" and "scale v \<le> maxScale v"
  shows "scale (zoomIn v) = min (scale v + 0.2) (maxScale v)
       \<and> scale (zoomOut v) = max (scale v - 0.2) (minScale v)
       \<and> (scale v = maxScale v \<longrightarrow> zoomIn v = v \<and> zoomIn (zoomIn (zoomIn v)) = v)
       \<and> (scale v = minScale v \<longrightarrow> zoomOut v = v)
       \<and> translateX (zoomIn v) = translateX v \<and> translateY (zoomIn v) = translateY v
       \<and> translateX (zoomOut v) = translateX v \<and> translateY (zoomOut v) = translateY v"
  using assms by (simp add: zoomIn_def zoomOut_def)

theorem zoom_step_clamped_witness:
  "scale (zoomIn (new_MRTMapInteraction sample_page\<lparr>scale := 3\<rparr>)) = 3
   \<and> zoomIn (zoomIn (zoomIn (new_MRTMapInteraction sample_page\<lparr>scale := 3\<rparr>)))
       = new_MRTMapInteraction sample_page\<lparr>scale := 3\<rparr>
   \<and> scale (zoomOut (new_MRTMapInteraction sample_page\<lparr>scale := 3\<rparr>)) = 2.8
   \<and> scale (zoomIn (new_MRTMapInteraction sample_page)) = 1.2
   \<and> scale (zoomOut (new_MRTMapInteraction sample_page)) = 0.8"
  using zoom_step_clamped [of "new_MRTMapInteraction sample_page\<lparr>scale := 3\<rparr>"]
        zoom_step_clamped [of "new_MRTMapInteraction sample_page"]
  by simp

text \<open>
  C3. From every state, \<open>startPan(x0, y0)\<close> sets the gesture active with the anchor
  \<open>(x0 - translateX, y0 - translateY)\<close>, and a \<open>pan(x1, y1)\<close> after it sets
  \<open>translateX = x1 - (x0 - tx)\<close> and \<open>translateY = y1 - (y0 - ty)\<close> and leaves the scale as it
  was; with the wrapper present \<open>startPan\<close> returns normally.
\<close>

theorem startPan_then_pan:
  "isPanning (state_of (startPan e0 v))
   \<and> startX (state_of (startPan e0 v)) = clientX e0 - translateX v
   \<and> startY (state_of (startPan e0 v)) = clientY e0 - translateY v
   \<and> translateX (pan e1 (state_of (startPan e0 v))) = clientX e1 - (clientX e0 - translateX v)
   \<and> translateY (pan e1 (state_of (startPan e0 v))) = clientY e1 - (clientY e0 - translateY v)
   \<and> scale (pan e1 (state_of (startPan e0 v))) = scale v
   \<and> (mapWrapper v \<noteq> None \<longrightarrow> \<not> throws (startPan e0 v))"
  by (auto simp add: startPan_def pan_def Let_def split: option.splits)

theorem startPan_then_pan_witness:
  "mapWrapper (new_MRTMapInteraction sample_page) \<noteq> None
   \<and> \<not> throws (startPan \<lparr>clientX = 100, clientY = 100\<rparr> (new_MRTMapInteraction sample_page))
   \<and> translateX (pan \<lparr>clientX = 150, clientY = 120\<rparr>
        (state_of (startPan \<lparr>clientX = 100, clientY = 100\<rparr>
           (new_MRTMapInteraction sample_page)))) = 50
   \<and> translateY (pan \<lparr>clientX = 150, clientY = 120\<rparr>
        (state_of (startPan \<lparr>clientX = 100, clientY = 100\<rparr>
           (new_MRTMapInteraction sample_page)))) = 20"
  using startPan_then_pan [of "\<lparr>clientX = 100, clientY = 100\<rparr>"
          "new_MRTMapInteraction sample_page" "\<lparr>clientX = 150, clientY = 120\<rparr>"]
  by simp

text \<open>
  C4. From every prior state (any scale, any translation, any gesture state, with or without
  the elements), \<open>resetZoom()\<close> returns, it leaves \<open>scale = 1\<close>, \<open>translateX = 0\<close> and
  \<open>translateY = 0\<close>, and the transform it writes on the graphic (when there is one) is that of
  this state.
\<close>

theorem resetZoom_yields_initial_transform:
  "scale (resetZoom v) = 1 \<and> translateX (resetZoom v) = 0 \<and> translateY (resetZoom v) = 0
   \<and> \<not> throws (do_call ResetZoom v)
   \<and> (case mapObject (resetZoom v) of
        None \<Rightarrow> mapObject v = None
      | Some ob \<Rightarrow> style_transform ob = Some (0, 0, 1))"
  by (simp add: resetZoom_def updateTransform_def split: option.splits)

text \<open>
  C5. With exact arithmetic: from a scale \<open>s\<close> within the bounds, \<open>zoomIn()\<close> then
  \<open>zoomOut()\<close> returns the scale to \<open>s\<close> unless \<open>s + 0.2\<close> exceeds \<open>maxScale\<close>, and
  \<open>zoomOut()\<close> then \<open>zoomIn()\<close> returns it to \<open>s\<close> unless \<open>s - 0.2\<close> falls below \<open>minScale\<close>.
\<close>

theorem zoom_round_trip:
  "(minScale v \<le> scale v \<and> scale v + 0.2 \<le> maxScale v
      \<longrightarrow> scale (zoomOut (zoomIn v)) = scale v)
   \<and> (minScale v \<le> scale v - 0.2 \<and> scale v \<le> maxScale v
      \<longrightarrow> scale (zoomIn (zoomOut v)) = scale v)"
  by (simp add: zoomIn_def zoomOut_def)

theorem zoom_round_trip_witness:
  "scale (zoomOut (zoomIn (new_MRTMapInteraction sample_page))) = 1
   \<and> scale (zoomIn (zoomOut (new_MRTMapInteraction sample_page))) = 1"
  using zoom_round_trip [of "new_MRTMapInteraction sample_page"] by simp

text \<open>
  C6. In every state, \<open>endPan()\<close> sets the gesture inactive and leaves \<open>scale\<close>,
  \<open>translateX\<close> and \<open>translateY\<close> as they were, and a second \<open>endPan()\<close> changes nothing
  more; on a viewer that has its wrapper neither call throws, whether or not a \<open>startPan()\<close>
  came before. A \<open>pan()\<close> while no gesture is active changes nothing.
\<close>

theorem endPan_idempotent:
  "isPanning (state_of (endPan v)) = False
   \<and> scale (state_of (endPan v)) = scale v
   \<and> translateX (state_of (endPan v)) = translateX v
   \<and> translateY (state_of (endPan v)) = translateY v
   \<and> state_of (endPan (state_of (endPan v))) = state_of (endPan v)
   \<and> (mapWrapper v \<noteq> None \<longrightarrow> \<not> throws (endPan v) \<and> \<not> throws (endPan (state_of (endPan v))))
   \<and> (\<not> isPanning v \<longrightarrow> pan e v = v)"
  by (auto simp add: endPan_def pan_def Let_def split: option.splits)

theorem endPan_idempotent_witness:
  "mapWrapper (new_MRTMapInteraction sample_page) \<noteq> None
   \<and> \<not> isPanning (new_MRTMapInteraction sample_page)
   \<and> \<not> throws (endPan (new_MRTMapInteraction sample_page))
   \<and> \<not> throws (endPan (state_of (endPan (new_MRTMapInteraction sample_page))))
   \<and> translateX (state_of (endPan (new_MRTMapInteraction sample_page))) = 0
   \<and> pan \<lparr>clientX = 7, clientY = 9\<rparr> (new_MRTMapInteraction sample_page)
       = new_MRTMapInteraction sample_page"
  using endPan_idempotent [of "new_MRTMapInteraction sample_page" "\<lparr>clientX = 7, clientY = 9\<rparr>"]
  by simp

section \<open>Labels: the scan of the source against the specification's wording\<close>

lemma js_str_station: "js_str ''station'' = [0x73, 0x74, 0x61, 0x74, 0x69, 0x6F, 0x6E]"
  by (simp add: js_str_def)

lemma length_js_str_station: "length (js_str ''station'') = 7"
  by (simp add: js_str_def)

lemma js_str_underscore: "js_str ''_'' = [0x5F]" "js_str '' '' = [0x20]"
  by (simp_all add: js_str_def)

lemma replace_underscores:
  "replace_all False (js_str ''_'') (js_str '' '') s = spec_underscores_to_spaces s"
  by (induction s) (simp_all add: js_str_underscore spec_underscores_to_spaces_def)

lemma same_letter_station:
  "p \<in> set (js_str ''station'') \<Longrightarrow> (ascii_upper p = ascii_upper c) = same_letter p c"
  by (auto simp add: js_str_station ascii_upper_def same_letter_def)

lemma matches_at_list_all2:
  "matches_at True pat s =
     (length pat \<le> length s
      \<and> list_all2 (\<lambda>p c. ascii_upper p = ascii_upper c) pat (take (length pat) s))"
proof (induction pat arbitrary: s)
  case Nil
  show ?case by simp
next
  case (Cons p ps)
  show ?case by (cases s) (auto simp add: Cons.IH)
qed

lemma list_all2_cong_left:
  "(\<And>x y. x \<in> set xs \<Longrightarrow> P x y = Q x y) \<Longrightarrow> list_all2 P xs ys = list_all2 Q xs ys"
  by (induction xs arbitrary: ys) (auto simp add: list_all2_Cons1)

lemma matches_at_station: "matches_at True (js_str ''station'') s = occurs_at s 0"
proof -
  have "list_all2 (\<lambda>p c. ascii_upper p = ascii_upper c) (js_str ''station'') ys
        = list_all2 same_letter (js_str ''station'') ys" for ys
    by (rule list_all2_cong_left) (simp add: same_letter_station)
  then show ?thesis
    by (simp add: matches_at_list_all2 length_js_str_station occurs_at_def)
qed

lemma occurs_at_Cons: "occurs_at (c # cs) (Suc i) = occurs_at cs i"
  by (auto simp add: occurs_at_def)

lemma occurs_at_drop: "n \<le> length s \<Longrightarrow> occurs_at s (n + i) = occurs_at (drop n s) i"
  by (auto simp add: occurs_at_def add.commute)

lemma occurs_at_nth:
  assumes "occurs_at s i" and "k < 7"
  shows "same_letter (js_str ''station'' ! k) (s ! (i + k))"
proof -
  from assms(1) have len: "i + 7 \<le> length s"
    and all: "list_all2 same_letter (js_str ''station'') (take 7 (drop i s))"
    by (simp_all add: occurs_at_def)
  from list_all2_nthD [OF all, of k] assms(2)
  have "same_letter (js_str ''station'' ! k) (take 7 (drop i s) ! k)"
    by (simp add: length_js_str_station)
  with len assms(2) show ?thesis by simp
qed

text \<open>Two occurrences never overlap: the second would have to start, with an \<open>s\<close>, on one
  of the letters \<open>t a t i o n\<close> of the first.\<close>

lemma no_overlap:
  assumes "occurs_at s 0" and "1 \<le> i" and "i \<le> 6"
  shows "\<not> occurs_at s i"
proof
  assume occ: "occurs_at s i"
  from occurs_at_nth [OF occ, of 0] have a: "same_letter 0x73 (s ! i)"
    by (simp add: js_str_station)
  from assms(3) have "i < 7" by simp
  from occurs_at_nth [OF assms(1) this]
  have b: "same_letter (js_str ''station'' ! i) (s ! i)" by simp
  from assms(2,3) have "i = 1 \<or> i = 2 \<or> i = 3 \<or> i = 4 \<or> i = 5 \<or> i = 6" by arith
  with a b show False
    by (auto simp add: js_str_station same_letter_def)
qed

lemma covered_0: "covered s 0 = occurs_at s 0"
  by (simp add: covered_def)

lemma covered_first: "occurs_at s 0 \<Longrightarrow> j < 7 \<Longrightarrow> covered s j"
  by (auto simp add: covered_def)

lemma covered_Suc:
  assumes "\<not> occurs_at (c # cs) 0"
  shows "covered (c # cs) (Suc j) = covered cs j"
proof
  assume "covered (c # cs) (Suc j)"
  then obtain i where i: "Suc j - 6 \<le> i" "i \<le> Suc j" "occurs_at (c # cs) i"
    by (auto simp add: covered_def)
  with assms obtain i' where "i = Suc i'" by (cases i) auto
  with i have "j - 6 \<le> i'" "i' \<le> j" "occurs_at cs i'"
    by (auto simp add: occurs_at_Cons)
  then show "covered cs j" by (auto simp add: covered_def)
next
  assume "covered cs j"
  then obtain i where i: "j - 6 \<le> i" "i \<le> j" "occurs_at cs i"
    by (auto simp add: covered_def)
  then have "Suc j - 6 \<le> Suc i" "Suc i \<le> Suc j" "occurs_at (c # cs) (Suc i)"
    by (auto simp add: occurs_at_Cons)
  then show "covered (c # cs) (Suc j)" unfolding covered_def by fastforce
qed

lemma covered_shift:
  assumes "occurs_at s 0"
  shows "covered s (j + 7) = covered (drop 7 s) j"
proof
  from assms have len: "7 \<le> length s" by (simp add: occurs_at_def)
  assume "covered s (j + 7)"
  then obtain i where i: "j + 7 - 6 \<le> i" "i \<le> j + 7" "occurs_at s i"
    by (auto simp add: covered_def)
  have "7 \<le> i"
  proof (rule ccontr)
    assume "\<not> 7 \<le> i"
    with i(1) have "1 \<le> i" "i \<le> 6" by arith+
    from no_overlap [OF assms this] i(3) show False by simp
  qed
  then obtain i' where i': "i = 7 + i'" by (metis le_Suc_ex)
  with i(3) len have "occurs_at (drop 7 s) i'" by (simp add: occurs_at_drop)
  moreover from i i' have "j - 6 \<le> i'" "i' \<le> j" by arith+
  ultimately show "covered (drop 7 s) j" by (auto simp add: covered_def)
next
  from assms have len: "7 \<le> length s" by (simp add: occurs_at_def)
  assume "covered (drop 7 s) j"
  then obtain i where i: "j - 6 \<le> i" "i \<le> j" "occurs_at (drop 7 s) i"
    by (auto simp add: covered_def)
  with len have "occurs_at s (7 + i)" by (simp add: occurs_at_drop)
  moreover from i have "j + 7 - 6 \<le> 7 + i" "7 + i \<le> j + 7" by arith+
  ultimately show "covered s (j + 7)" unfolding covered_def by fastforce
qed

lemma spec_remove_station_nths: "spec_remove_station s = nths s {j. \<not> covered s j}"
  by (simp add: spec_remove_station_def nths_def case_prod_unfold)

lemma nths_none: "(\<And>j. j < length xs \<Longrightarrow> j \<notin> A) \<Longrightarrow> nths xs A = []"
  by (auto simp add: nths_def filter_empty_conv in_set_zip)

text \<open>The left-to-right scan of \<open>replace(/station/gi, '')\<close> deletes exactly the positions
  that lie inside an occurrence.\<close>

lemma remove_station_refines:
  "replace_all True (js_str ''station'') [] s = spec_remove_station s"
proof (induction s rule: length_induct)
  case (1 s)
  show ?case
  proof (cases s)
    case Nil
    then show ?thesis by (simp add: spec_remove_station_def)
  next
    case (Cons c cs)
    show ?thesis
    proof (cases "occurs_at s 0")
      case True
      then have len: "7 \<le> length s" by (simp add: occurs_at_def)
      have d: "drop 6 cs = drop 7 s" using Cons by simp
      have "length (drop 7 s) < length s" using len by simp
      with 1 have IH: "replace_all True (js_str ''station'') [] (drop 7 s)
                       = spec_remove_station (drop 7 s)" by blast
      have l: "replace_all True (js_str ''station'') [] s
               = replace_all True (js_str ''station'') [] (drop 7 s)"
      proof -
        have "matches_at True (js_str ''station'') (c # cs)"
          using True Cons by (simp add: matches_at_station)
        then show ?thesis using Cons d by (simp add: length_js_str_station)
      qed
      have "nths s {j. \<not> covered s j}
            = nths (take 7 s) {j. \<not> covered s j}
              @ nths (drop 7 s) {j. \<not> covered s (j + 7)}"
        using nths_append [of "take 7 s" "drop 7 s" "{j. \<not> covered s j}"] len
        by (simp add: min_def)
      also have "nths (take 7 s) {j. \<not> covered s j} = []"
        by (rule nths_none) (simp add: covered_first [OF True])
      also have "{j. \<not> covered s (j + 7)} = {j. \<not> covered (drop 7 s) j}"
        by (simp add: covered_shift [OF True])
      finally have "spec_remove_station s = spec_remove_station (drop 7 s)"
        by (simp add: spec_remove_station_nths)
      with l IH show ?thesis by simp
    next
      case False
      have "length cs < length s" using Cons by simp
      with 1 have IH: "replace_all True (js_str ''station'') [] cs = spec_remove_station cs"
        by blast
      from False Cons have l: "replace_all True (js_str ''station'') [] s
               = c # replace_all True (js_str ''station'') [] cs"
        by (simp add: matches_at_station)
      from False Cons have nocc: "\<not> occurs_at (c # cs) 0" by simp
      have "spec_remove_station s = c # spec_remove_station cs"
        using nocc Cons
        by (simp add: spec_remove_station_nths nths_Cons covered_0 covered_Suc)
      with l IH show ?thesis by simp
    qed
  qed
qed

lemma cleanup_refines:
  "js_trim (replace_all True (js_str ''station'') []
      (replace_all False (js_str ''_'') (js_str '' '') raw)) = spec_label raw"
  by (simp add: spec_label_def remove_station_refines replace_underscores)

text \<open>The chain of \<open>||\<close> picks the first non-empty source, and its last operand when
  there is none.\<close>

lemma or_else_chain:
  "or_else (attr_id n) (or_else (attr_title n) (or_else (Some (node_textContent n)) d))
   = (if spec_label_source n = [] then d else spec_label_source n)"
  by (cases "attr_id n"; cases "attr_title n")
     (simp_all add: or_else_def spec_label_source_def)

lemma spec_label_fallback: "spec_label (js_str ''Station'') = []" "spec_label [] = []"
  by code_simp+

lemma tooltip_updateTooltipPosition:
  "tooltip v = Some t \<Longrightarrow>
   map_option tooltip_textContent (tooltip (state_of (updateTooltipPosition e v)))
     = Some (tooltip_textContent t)
   \<and> map_option tooltip_classList (tooltip (state_of (updateTooltipPosition e v)))
     = Some (tooltip_classList t)"
  by (simp add: updateTooltipPosition_def Let_def split: option.splits)

lemma shown_label_eq:
  assumes "tooltip v = Some t"
  shows "shown_label e station v = Some (spec_label (spec_label_source station))"
proof -
  have "shown_label e station v
        = Some (spec_label (if spec_label_source station = [] then js_str ''Station''
                            else spec_label_source station))"
    using assms
    by (simp add: shown_label_def showStationTooltip_def Let_def cleanup_refines
          or_else_chain tooltip_updateTooltipPosition)
  then show ?thesis by (simp add: spec_label_fallback)
qed

lemma sample_station_label:
  "spec_label_source sample_station = js_str ''Raffles_Place_Station''"
  "spec_label (js_str ''Raffles_Place_Station'') = js_str ''Raffles Place''"
  "js_str ''Raffles_Place_Station'' \<noteq> []"
  "js_str ''Raffles_Place_Station'' \<noteq> js_str ''Raffles Place''"
  by code_simp+

lemma sample_viewer_tooltip:
  "tooltip (new_MRTMapInteraction sample_page)
   = Some \<lparr>tooltip_textContent = [], tooltip_classList = {}, style_left = None,
           style_top = None\<rparr>"
  by (simp add: new_MRTMapInteraction_def init_def sample_page_def)

lemma showStationTooltip_visible:
  "tooltip v = Some t \<Longrightarrow>
   map_option tooltip_classList (tooltip (state_of (showStationTooltip e station v)))
     = Some (insert ''visible'' (tooltip_classList t))"
  by (simp add: showStationTooltip_def Let_def tooltip_updateTooltipPosition)

text \<open>
  C7. On a page with a tooltip, for every station node the label the hover tooltip shows is
  derived from the node's identifier (falling back to the title, then to the text content)
  by replacing underscores with spaces, removing every occurrence of the word "station" in
  either case, and trimming, and the tooltip is made visible; the identifier
  \<open>Raffles_Place_Station\<close> gives \<open>Raffles Place\<close>.
\<close>

theorem tooltip_label_derivation:
  assumes "tooltip v = Some t"
  shows "shown_label e station v = Some (spec_label (spec_label_source station))
       \<and> map_option tooltip_classList (tooltip (state_of (showStationTooltip e station v)))
           = Some (insert ''visible'' (tooltip_classList t))"
  using assms by (simp add: shown_label_eq showStationTooltip_visible)

theorem tooltip_label_derivation_witness:
  "tooltip (new_MRTMapInteraction sample_page)
     = Some \<lparr>tooltip_textContent = [], tooltip_classList = {}, style_left = None,
             style_top = None\<rparr>
   \<and> attr_id sample_station = Some (js_str ''Raffles_Place_Station'')
   \<and> shown_label \<lparr>clientX = 300, clientY = 200\<rparr> sample_station
        (new_MRTMapInteraction sample_page) = Some (js_str ''Raffles Place'')"
proof -
  have "attr_id sample_station = Some (js_str ''Raffles_Place_Station'')"
    by (simp add: sample_station_def)
  with tooltip_label_derivation [OF sample_viewer_tooltip,
          of "\<lparr>clientX = 300, clientY = 200\<rparr>" sample_station]
  show ?thesis by (simp add: sample_viewer_tooltip sample_station_label)
qed

lemma handleStationClick_outputs:
  "notification station v
     = alert_text (if spec_label_source station = [] then js_str ''Unknown Station''
                   else spec_label_source station)"
  "console (handleStationClick station v)
     = console v @ [StationClicked (if spec_label_source station = []
                                    then js_str ''Unknown Station''
                                    else spec_label_source station)]"
  by (simp_all add: notification_def handleStationClick_def Let_def or_else_chain)

lemma alert_text_inject: "(alert_text a = alert_text b) = (a = b)"
  by (simp add: alert_text_def)

text \<open>
  C8, counterexample. For the node with the identifier \<open>Raffles_Place_Station\<close> the hover
  tooltip shows \<open>Raffles Place\<close>, while the click logs and notifies the identifier as it
  is: the notification is not the one the tooltip's label would give.
\<close>

theorem click_label_counterexample:
  "shown_label \<lparr>clientX = 300, clientY = 200\<rparr> sample_station
      (new_MRTMapInteraction sample_page) = Some (js_str ''Raffles Place'')
   \<and> notification sample_station (new_MRTMapInteraction sample_page)
       = alert_text (js_str ''Raffles_Place_Station'')
   \<and> notification sample_station (new_MRTMapInteraction sample_page)
       \<noteq> alert_text (js_str ''Raffles Place'')
   \<and> console (handleStationClick sample_station (new_MRTMapInteraction sample_page))
       = [MapInitialized, StationClicked (js_str ''Raffles_Place_Station'')]"
proof -
  have "console (new_MRTMapInteraction sample_page) = [MapInitialized]"
    by (simp add: new_MRTMapInteraction_def init_def sample_page_def)
  then show ?thesis
    by (simp add: shown_label_eq [OF sample_viewer_tooltip] handleStationClick_outputs
          sample_station_label alert_text_inject)
qed

text \<open>
  C8, amended. For every station node the click handler takes the name from the same sources
  as the hover tooltip (the identifier, falling back to the title, then to the text content)
  and logs and notifies that name as it is, without the cleanup; the label the hover tooltip
  shows is the cleanup of that name (underscores replaced by spaces, "station" removed in
  either case, trimmed). When the three sources are all empty the click names
  \<open>Unknown Station\<close> and the tooltip's label is empty.
\<close>

theorem click_label_is_uncleaned_source:
  "(spec_label_source station \<noteq> [] \<longrightarrow>
      notification station v = alert_text (spec_label_source station)
      \<and> console (handleStationClick station v)
          = console v @ [StationClicked (spec_label_source station)]
      \<and> (tooltip v \<noteq> None \<longrightarrow>
           shown_label e station v = Some (spec_label (spec_label_source station))))
   \<and> (spec_label_source station = [] \<longrightarrow>
      notification station v = alert_text (js_str ''Unknown Station'')
      \<and> console (handleStationClick station v)
          = console v @ [StationClicked (js_str ''Unknown Station'')]
      \<and> (tooltip v \<noteq> None \<longrightarrow> shown_label e station v = Some []))"
proof -
  have "tooltip v \<noteq> None \<longrightarrow>
        shown_label e station v = Some (spec_label (spec_label_source station))"
    by (auto simp add: shown_label_eq)
  then show ?thesis
    by (auto simp add: handleStationClick_outputs spec_label_fallback)
qed

theorem click_label_is_uncleaned_source_witness:
  "spec_label_source sample_station \<noteq> []
   \<and> tooltip (new_MRTMapInteraction sample_page) \<noteq> None
   \<and> notification sample_station (new_MRTMapInteraction sample_page)
       = alert_text (js_str ''Raffles_Place_Station'')
   \<and> shown_label \<lparr>clientX = 300, clientY = 200\<rparr> sample_station
        (new_MRTMapInteraction sample_page)
       = Some (spec_label (js_str ''Raffles_Place_Station''))
   \<and> spec_label_source (sample_station\<lparr>attr_id := None\<rparr>) = []
   \<and> notification (sample_station\<lparr>attr_id := None\<rparr>) (new_MRTMapInteraction sample_page)
       = alert_text (js_str ''Unknown Station'')
   \<and> shown_label \<lparr>clientX = 300, clientY = 200\<rparr> (sample_station\<lparr>attr_id := None\<rparr>)
        (new_MRTMapInteraction sample_page) = Some []"
proof -
  have a: "spec_label_source sample_station \<noteq> []"
    by (simp add: sample_station_label)
  have b: "spec_label_source (sample_station\<lparr>attr_id := None\<rparr>) = []"
    by (simp add: spec_label_source_def sample_station_def)
  from a b
    click_label_is_uncleaned_source [of sample_station "new_MRTMapInteraction sample_page"
      "\<lparr>clientX = 300, clientY = 200\<rparr>"]
    click_label_is_uncleaned_source [of "sample_station\<lparr>attr_id := None\<rparr>"
      "new_MRTMapInteraction sample_page" "\<lparr>clientX = 300, clientY = 200\<rparr>"]
  show ?thesis by (simp add: sample_station_label)
qed

section \<open>Hover on a circular marker\<close>

lemma updateTooltipPosition_returns:
  "mapWrapper v \<noteq> None \<Longrightarrow> \<not> throws (updateTooltipPosition e v)"
  by (auto simp add: updateTooltipPosition_def Let_def split: option.splits)

lemma showStationTooltip_returns:
  "mapWrapper v \<noteq> None \<Longrightarrow> \<not> throws (showStationTooltip e station v)"
  by (auto simp add: showStationTooltip_def Let_def updateTooltipPosition_returns
        split: option.splits)

text \<open>
  C9. With exact arithmetic, on a viewer that has its wrapper: for every circular marker with
  the numeric radius \<open>r\<close>, hover-enter sets the radius to \<open>r * 1.5\<close>, and the hover-leave
  after it divides by 1.5, which restores \<open>r\<close>, and clears the fill; a marker of radius 5
  ends at radius 5.
\<close>

theorem hover_radius_round_trip:
  assumes "tagName station = ''circle''" and "attr_r station = Some r"
    and "mapWrapper v \<noteq> None"
  shows "\<not> throws (station_mouseenter e station v)
       \<and> attr_r (snd (state_of (station_mouseenter e station v))) = Some (r * 1.5)
       \<and> style_fill (snd (state_of (station_mouseenter e station v))) = ''#B40000''
       \<and> attr_r (snd (state_of (station_mouseleave e'
            (snd (state_of (station_mouseenter e station v)))
            (fst (state_of (station_mouseenter e station v)))))) = Some r
       \<and> style_fill (snd (state_of (station_mouseleave e'
            (snd (state_of (station_mouseenter e station v)))
            (fst (state_of (station_mouseenter e station v)))))) = []"
proof -
  from showStationTooltip_returns [OF assms(3), of e station]
  obtain v1 where "showStationTooltip e station v = Normal v1"
    by (cases "showStationTooltip e station v") simp_all
  with assms(1,2) show ?thesis
    by (simp add: station_mouseenter_def station_mouseleave_def)
qed

theorem hover_radius_round_trip_witness:
  "tagName sample_station = ''circle'' \<and> attr_r sample_station = Some 5
   \<and> mapWrapper (new_MRTMapInteraction sample_page) \<noteq> None
   \<and> attr_r (snd (state_of (station_mouseenter \<lparr>clientX = 300, clientY = 200\<rparr> sample_station
        (new_MRTMapInteraction sample_page)))) = Some 7.5
   \<and> attr_r (snd (state_of (station_mouseleave \<lparr>clientX = 310, clientY = 190\<rparr>
        (snd (state_of (station_mouseenter \<lparr>clientX = 300, clientY = 200\<rparr> sample_station
           (new_MRTMapInteraction sample_page))))
        (fst (state_of (station_mouseenter \<lparr>clientX = 300, clientY = 200\<rparr> sample_station
           (new_MRTMapInteraction sample_page))))))) = Some 5"
proof -
  have a: "tagName sample_station = ''circle''" "attr_r sample_station = Some 5"
    by (simp_all add: sample_station_def)
  have b: "mapWrapper (new_MRTMapInteraction sample_page) \<noteq> None" by simp
  from hover_radius_round_trip [OF a b, of "\<lparr>clientX = 300, clientY = 200\<rparr>"
         "\<lparr>clientX = 310, clientY = 190\<rparr>"] a b
  show ?thesis by simp
qed

section \<open>Error paths\<close>

text \<open>
  C10, counterexample. On the sample page the embedded document is null. The station setup
  returns and leaves the console as it was: no diagnostic is logged.
\<close>

theorem setup_null_document_counterexample:
  "map_option contentDocument (mapObject (new_MRTMapInteraction sample_page)) = Some NoDocument
   \<and> setupSVGInteraction (new_MRTMapInteraction sample_page)
       = Normal (new_MRTMapInteraction sample_page)
   \<and> console (state_of (setupSVGInteraction (new_MRTMapInteraction sample_page)))
       = [MapInitialized]
   \<and> SetupError \<notin> set (console (state_of (setupSVGInteraction
                               (new_MRTMapInteraction sample_page))))"
  by (simp add: setupSVGInteraction_def setup_body_def new_MRTMapInteraction_def init_def
        sample_page_def)

text \<open>
  C10, amended. No error path throws. If the container or the graphic is missing at
  construction, \<open>init\<close> returns early and changes nothing: no listener is added to any
  element and nothing is logged. The station setup never throws: if reading the embedded
  document throws, the error is caught, a diagnostic is logged and nothing else of the viewer
  changes; if the embedded document is null, the setup returns without logging and the
  viewer is unchanged.
\<close>

theorem error_paths_do_not_throw:
  "\<not> throws (setupSVGInteraction v)
   \<and> (mapWrapper v = None \<or> mapObject v = None \<longrightarrow> init v = v)
   \<and> (el_map_wrapper doc = None \<or> el_mrt_map_svg doc = None \<longrightarrow>
        console (new_MRTMapInteraction doc) = []
        \<and> mapWrapper (new_MRTMapInteraction doc) = el_map_wrapper doc
        \<and> mapObject (new_MRTMapInteraction doc) = el_mrt_map_svg doc
        \<and> zoomInBtn (new_MRTMapInteraction doc) = el_zoom_in doc
        \<and> zoomOutBtn (new_MRTMapInteraction doc) = el_zoom_out doc
        \<and> resetBtn (new_MRTMapInteraction doc) = el_reset_zoom doc
        \<and> fullscreenBtn (new_MRTMapInteraction doc) = el_fullscreen doc)
   \<and> (map_option contentDocument (mapObject v) = Some AccessError \<longrightarrow>
        setupSVGInteraction v = Normal (v\<lparr>console := console v @ [SetupError]\<rparr>))
   \<and> (map_option contentDocument (mapObject v) = Some NoDocument \<longrightarrow>
        setupSVGInteraction v = Normal v)"
proof -
  have "\<not> throws (setupSVGInteraction v)"
    by (simp add: setupSVGInteraction_def split: completion.splits)
  moreover have "mapWrapper v = None \<or> mapObject v = None \<longrightarrow> init v = v"
    by (auto simp add: init_def split: option.splits)
  moreover have "el_map_wrapper doc = None \<or> el_mrt_map_svg doc = None \<longrightarrow>
        console (new_MRTMapInteraction doc) = []
        \<and> mapWrapper (new_MRTMapInteraction doc) = el_map_wrapper doc
        \<and> mapObject (new_MRTMapInteraction doc) = el_mrt_map_svg doc
        \<and> zoomInBtn (new_MRTMapInteraction doc) = el_zoom_in doc
        \<and> zoomOutBtn (new_MRTMapInteraction doc) = el_zoom_out doc
        \<and> resetBtn (new_MRTMapInteraction doc) = el_reset_zoom doc
        \<and> fullscreenBtn (new_MRTMapInteraction doc) = el_fullscreen doc"
    by (auto simp add: new_MRTMapInteraction_def init_def split: option.splits)
  moreover have "map_option contentDocument (mapObject v) = Some AccessError \<longrightarrow>
        setupSVGInteraction v = Normal (v\<lparr>console := console v @ [SetupError]\<rparr>)"
    by (auto simp add: setupSVGInteraction_def setup_body_def split: option.splits)
  moreover have "map_option contentDocument (mapObject v) = Some NoDocument \<longrightarrow>
        setupSVGInteraction v = Normal v"
    by (auto simp add: setupSVGInteraction_def setup_body_def split: option.splits)
  ultimately show ?thesis by blast
qed

theorem error_paths_do_not_throw_witness:
  "el_map_wrapper (sample_page\<lparr>el_map_wrapper := None\<rparr>) = None
   \<and> console (new_MRTMapInteraction (sample_page\<lparr>el_map_wrapper := None\<rparr>)) = []
   \<and> zoomInBtn (new_MRTMapInteraction (sample_page\<lparr>el_map_wrapper := None\<rparr>))
       = Some \<lparr>button_listeners = []\<rparr>
   \<and> map_option contentDocument (mapObject (new_MRTMapInteraction sample_page
         \<lparr>mapObject := Some \<lparr>style_transform = None, contentDocument = AccessError,
                              object_listeners = [''load'']\<rparr>\<rparr>)) = Some AccessError
   \<and> console (state_of (setupSVGInteraction (new_MRTMapInteraction sample_page
         \<lparr>mapObject := Some \<lparr>style_transform = None, contentDocument = AccessError,
                              object_listeners = [''load'']\<rparr>\<rparr>)))
       = [MapInitialized, SetupError]
   \<and> map_option contentDocument (mapObject (new_MRTMapInteraction sample_page))
       = Some NoDocument
   \<and> setupSVGInteraction (new_MRTMapInteraction sample_page)
       = Normal (new_MRTMapInteraction sample_page)"
proof -
  have a: "map_option contentDocument (mapObject (new_MRTMapInteraction sample_page))
           = Some NoDocument"
    and c: "console (new_MRTMapInteraction sample_page) = [MapInitialized]"
    by (simp_all add: new_MRTMapInteraction_def init_def sample_page_def)
  from a c
    error_paths_do_not_throw [of "new_MRTMapInteraction sample_page"
      "sample_page\<lparr>el_map_wrapper := None\<rparr>"]
    error_paths_do_not_throw [of "new_MRTMapInteraction sample_page
         \<lparr>mapObject := Some \<lparr>style_transform = None, contentDocument = AccessError,
                              object_listeners = [''load'']\<rparr>\<rparr>" sample_page]
  show ?thesis by (simp add: sample_page_def)
qed

end
